theory Spec2Isabelle
  imports Main "HOL-Library.Word" "HOL-Library.List_Lexorder" "HOL-Library.AList"
begin

section \<open>JavaScript strings\<close>

text \<open>
  A JavaScript string is a sequence of 16-bit code units. The regular expressions of
  \<^verbatim>\<open>index.js\<close> all carry the \<^verbatim>\<open>u\<close> flag, so they read the string as code
  points: a high surrogate directly followed by a low surrogate is one code point above
  U+FFFF, every other unit (a lone surrogate too) is the code point of its own value.
\<close>

type_synonym jsstring = "16 word list"

definition js :: "string \<Rightarrow> jsstring" where
  "js s = map (\<lambda>c. of_char c) s"

definition isHighSurrogate :: "16 word \<Rightarrow> bool" where
  "isHighSurrogate u \<longleftrightarrow> 0xD800 \<le> u \<and> u \<le> 0xDBFF"

definition isLowSurrogate :: "16 word \<Rightarrow> bool" where
  "isLowSurrogate u \<longleftrightarrow> 0xDC00 \<le> u \<and> u \<le> 0xDFFF"

fun codePoints :: "jsstring \<Rightarrow> nat list" where
  "codePoints [] = []"
| "codePoints [u] = [unat u]"
| "codePoints (u # v # r) =
     (if isHighSurrogate u \<and> isLowSurrogate v
      then (0x10000 + (unat u - 0xD800) * 0x400 + (unat v - 0xDC00)) # codePoints r
      else unat u # codePoints (v # r))"

text \<open>
  \<^verbatim>\<open>String.prototype.toLowerCase\<close>, on the strings it is applied to: the constructor
  lowers the tag name only after \<open>validateToken\<close> has accepted it, and an accepted name
  is ASCII.
\<close>

definition toLowerCase :: "jsstring \<Rightarrow> jsstring" where
  "toLowerCase s = map (\<lambda>u. if 0x41 \<le> u \<and> u \<le> 0x5A then u + 0x20 else u) s"

definition toUpperCase :: "jsstring \<Rightarrow> jsstring" where
  "toUpperCase s = map (\<lambda>u. if 0x61 \<le> u \<and> u \<le> 0x7A then u - 0x20 else u) s"

section \<open>The category tables\<close>

definition VOID_ELEMENTS :: "jsstring list" where
  "VOID_ELEMENTS =
     [js ''area'', js ''base'', js ''br'', js ''col'', js ''embed'', js ''hr'', js ''img'',
      js ''input'', js ''link'', js ''meta'', js ''param'', js ''source'', js ''track'',
      js ''wbr'']"

definition RAW_TEXT_ELEMENTS :: "jsstring list" where
  "RAW_TEXT_ELEMENTS = [js ''script'', js ''style'']"

definition ESCAPABLE_RAW_TEXT_ELEMENTS :: "jsstring list" where
  "ESCAPABLE_RAW_TEXT_ELEMENTS = [js ''textarea'', js ''title'']"

section \<open>The two grammars\<close>

text \<open>
  \<open>validateToken\<close> matches
  \<^verbatim>\<open>/^[_A-Za-z][-_.A-Za-z0-9]*(:[_A-Za-z][-_.A-Za-z0-9]*)?$/u\<close>.
  Neither character class holds the colon, so the optional group can only start at the
  first colon of the string.
\<close>

definition nameStart :: "16 word \<Rightarrow> bool" where
  "nameStart u \<longleftrightarrow> u = 0x5F \<or> (0x41 \<le> u \<and> u \<le> 0x5A) \<or> (0x61 \<le> u \<and> u \<le> 0x7A)"

definition nameChar :: "16 word \<Rightarrow> bool" where
  "nameChar u \<longleftrightarrow>
     u = 0x2D \<or> u = 0x5F \<or> u = 0x2E \<or> (0x41 \<le> u \<and> u \<le> 0x5A) \<or> (0x61 \<le> u \<and> u \<le> 0x7A)
     \<or> (0x30 \<le> u \<and> u \<le> 0x39)"

fun ncName :: "jsstring \<Rightarrow> bool" where
  "ncName [] = False"
| "ncName (u # us) = (nameStart u \<and> list_all nameChar us)"

definition validateToken :: "jsstring \<Rightarrow> bool" where
  "validateToken token =
     (ncName (takeWhile (\<lambda>u. u \<noteq> 0x3A) token) \<and>
      (case dropWhile (\<lambda>u. u \<noteq> 0x3A) token of [] \<Rightarrow> True | colon # rest \<Rightarrow> ncName rest))"

text \<open>
  \<open>validateText\<close> matches
  \<^verbatim>\<open>/^[\u{9}\u{a}\u{d}\u{20}-\u{d7ff}\u{e000}\u{fffd}\u{10000}-\u{10ffff}]*$/u\<close>:
  the class lists \<^verbatim>\<open>\u{e000}\<close> and \<^verbatim>\<open>\u{fffd}\<close> as two single code points, with
  no hyphen between them.
\<close>

definition textChar :: "nat \<Rightarrow> bool" where
  "textChar c \<longleftrightarrow>
     c = 0x9 \<or> c = 0xA \<or> c = 0xD \<or> (0x20 \<le> c \<and> c \<le> 0xD7FF) \<or> c = 0xE000 \<or> c = 0xFFFD
     \<or> (0x10000 \<le> c \<and> c \<le> 0x10FFFF)"

definition validateText :: "jsstring \<Rightarrow> bool" where
  "validateText text = list_all textChar (codePoints text)"

text \<open>
  The Text grammar in the words of the specification, for comparison with
  \<open>validateText\<close>: U+0009, U+000A, U+000D, U+0020 to U+D7FF, U+E000 to U+FFFD,
  U+10000 to U+10FFFF.
\<close>

definition textChar_spec :: "nat \<Rightarrow> bool" where
  "textChar_spec c \<longleftrightarrow>
     c = 0x9 \<or> c = 0xA \<or> c = 0xD \<or> (0x20 \<le> c \<and> c \<le> 0xD7FF) \<or> (0xE000 \<le> c \<and> c \<le> 0xFFFD)
     \<or> (0x10000 \<le> c \<and> c \<le> 0x10FFFF)"

definition textGrammar_spec :: "jsstring \<Rightarrow> bool" where
  "textGrammar_spec text = list_all textChar_spec (codePoints text)"

section \<open>Errors\<close>

text \<open>
  Every failure of the source is a \<^verbatim>\<open>TypeError\<close>; the constructors below are its
  messages: 'Unsafe tag name', 'Void element', 'Raw text elements should not have
  contents', 'Already a child', 'Raw text elements cannot have element children',
  'Cyclic reference', 'Invalid text data', 'Unsafe atttribute name',
  'Unsafe atttribute value'.
\<close>

datatype error =
    UnsafeTagName
  | VoidElementError
  | NotEscapableError
  | AlreadyChildError
  | RawTextChildError
  | CyclicReferenceError
  | InvalidTextError
  | UnsafeAttributeName
  | UnsafeAttributeValue

section \<open>Escaping\<close>

text \<open>
  \<^verbatim>\<open>text.replace (/c/gu, rep)\<close> for a one-character pattern: every occurrence of the
  unit is replaced. None of the five characters is a surrogate, so replacing by units
  and by code points is the same.
\<close>

definition replaceAll :: "16 word \<Rightarrow> jsstring \<Rightarrow> jsstring \<Rightarrow> jsstring" where
  "replaceAll c rep s = concat (map (\<lambda>u. if u = c then rep else [u]) s)"

definition escapeReplace :: "jsstring \<Rightarrow> jsstring" where
  "escapeReplace text =
     replaceAll 0x22 (js ''&quot;'')
       (replaceAll 0x27 (js ''&apos;'')
         (replaceAll 0x3E (js ''&gt;'')
           (replaceAll 0x3C (js ''&lt;'')
             (replaceAll 0x26 (js ''&amp;'') text))))"

definition escapeText :: "jsstring \<Rightarrow> error + jsstring" where
  "escapeText text =
     (if \<not> validateText text then Inl InvalidTextError else Inr (escapeReplace text))"

section \<open>The element store\<close>

text \<open>
  Elements are objects with identity; their private state lives in the side table
  \<^verbatim>\<open>shadowObjects\<close>. The store is that table: an element is its index, and
  \<open>h ! e\<close> is the shadow object of \<open>e\<close>. A slot of a children array is a hole (left
  by \<^verbatim>\<open>delete\<close>), an element or a string. An argument of \<^verbatim>\<open>append\<close> is an element
  or any other value, given here by its \<^verbatim>\<open>String\<close> conversion.
\<close>

type_synonym eid = nat

datatype node = Hole | ElementNode eid | TextNode jsstring

datatype arg = ElementArg eid | TextArg jsstring

record element =
  attributes :: "(jsstring \<times> jsstring) list"
  children :: "node list"
  realName :: jsstring
  name :: jsstring
  void :: bool
  raw :: bool
  escapable :: bool
  parent :: "eid option"
  parentIndex :: "nat option"
  document :: "nat option"

type_synonym heap = "element list"

text \<open>
  A method returns a value or throws, changes the store, and may fail to return
  (\<open>None\<close>).
\<close>

type_synonym 'a js = "heap \<Rightarrow> ((error + 'a) \<times> heap) option"

definition bindJ :: "'a js \<Rightarrow> ('a \<Rightarrow> 'b js) \<Rightarrow> 'b js" where
  "bindJ m f h =
     (case m h of
        None \<Rightarrow> None
      | Some (Inl err, h') \<Rightarrow> Some (Inl err, h')
      | Some (Inr x, h') \<Rightarrow> f x h')"

definition liftE :: "(heap \<Rightarrow> (error + 'a) \<times> heap) \<Rightarrow> 'a js" where
  "liftE f h = Some (f h)"

definition liftH :: "(heap \<Rightarrow> heap) \<Rightarrow> unit js" where
  "liftH f h = Some (Inr (), f h)"

section \<open>Element\<close>

definition Element_new :: "jsstring \<Rightarrow> heap \<Rightarrow> (error + eid) \<times> heap" where
  "Element_new tagName h =
     (if \<not> validateToken tagName then (Inl UnsafeTagName, h)
      else
        (Inr (length h),
         h @ [\<lparr> attributes = [], children = [], realName = tagName,
                name = toLowerCase tagName,
                void = (toLowerCase tagName \<in> set VOID_ELEMENTS),
                raw = (toLowerCase tagName \<in> set RAW_TEXT_ELEMENTS
                       \<or> toLowerCase tagName \<in> set ESCAPABLE_RAW_TEXT_ELEMENTS),
                escapable = (toLowerCase tagName \<notin> set RAW_TEXT_ELEMENTS),
                parent = None, parentIndex = None, document = None \<rparr>]))"

definition parentElement :: "heap \<Rightarrow> eid \<Rightarrow> eid option" where
  "parentElement h this = parent (h ! this)"

text \<open>
  The \<^verbatim>\<open>do ... while (current = current.parentElement)\<close> loop of \<^verbatim>\<open>append\<close>:
  \<open>Some True\<close> when it throws 'Cyclic reference', \<open>Some False\<close> when it runs off the
  top of the parent chain, \<open>None\<close> when it does neither.
\<close>

partial_function (option) cyclicWalk :: "heap \<Rightarrow> eid \<Rightarrow> eid \<Rightarrow> bool option" where
  "cyclicWalk h child current =
     (if current = child then Some True
      else (case parentElement h current of
              None \<Rightarrow> Some False
            | Some p \<Rightarrow> cyclicWalk h child p))"

declare cyclicWalk.simps [code]

text \<open>The first loop of \<^verbatim>\<open>append\<close>: it reads the store and throws, or completes.\<close>

fun validateChildren :: "heap \<Rightarrow> eid \<Rightarrow> arg list \<Rightarrow> (error + unit) option" where
  "validateChildren h this [] = Some (Inr ())"
| "validateChildren h this (ElementArg child # rest) =
     (if parentElement h child \<noteq> None then Some (Inl AlreadyChildError)
      else if raw (h ! this) then Some (Inl RawTextChildError)
      else (case cyclicWalk h child this of
              None \<Rightarrow> None
            | Some True \<Rightarrow> Some (Inl CyclicReferenceError)
            | Some False \<Rightarrow> validateChildren h this rest))"
| "validateChildren h this (TextArg text # rest) =
     (if \<not> validateText text then Some (Inl InvalidTextError)
      else validateChildren h this rest)"

text \<open>
  The second loop: each element argument gets \<^verbatim>\<open>parent = this\<close> and
  \<^verbatim>\<open>parentIndex = shadow.children.length\<close>, and is pushed on \<^verbatim>\<open>tmp\<close>, not on
  \<^verbatim>\<open>shadow.children\<close>.
\<close>

fun attachChildren :: "eid \<Rightarrow> arg list \<Rightarrow> heap \<Rightarrow> node list \<Rightarrow> heap \<times> node list" where
  "attachChildren this [] h tmp = (h, tmp)"
| "attachChildren this (ElementArg child # rest) h tmp =
     attachChildren this rest
       (h[child := (h ! child)\<lparr> parent := Some this,
                                parentIndex := Some (length (children (h ! this))) \<rparr>])
       (tmp @ [ElementNode child])"
| "attachChildren this (TextArg text # rest) h tmp =
     attachChildren this rest h (tmp @ [TextNode text])"

definition Element_append :: "eid \<Rightarrow> arg list \<Rightarrow> unit js" where
  "Element_append this args h =
     (if void (h ! this) then Some (Inl VoidElementError, h)
      else if \<not> escapable (h ! this) then Some (Inl NotEscapableError, h)
      else (case validateChildren h this args of
              None \<Rightarrow> None
            | Some (Inl err) \<Rightarrow> Some (Inl err, h)
            | Some (Inr u) \<Rightarrow>
                (case attachChildren this args h [] of
                   (h', tmp) \<Rightarrow>
                     Some (Inr (),
                           h'[this := (h' ! this)\<lparr> children := children (h' ! this) @ tmp \<rparr>]))))"

text \<open>
  \<^verbatim>\<open>delete parentShadow.children[shadow.parentIndex]\<close> leaves a hole and keeps the
  length of the array; on an index the array does not have it does nothing.
\<close>

definition Element_remove :: "eid \<Rightarrow> heap \<Rightarrow> heap" where
  "Element_remove this h =
     (case parent (h ! this) of
        None \<Rightarrow> h
      | Some p \<Rightarrow>
          (let h1 = (case parentIndex (h ! this) of
                       None \<Rightarrow> h
                     | Some i \<Rightarrow> h[p := (h ! p)\<lparr> children := (children (h ! p))[i := Hole] \<rparr>])
           in h1[this := (h1 ! this)\<lparr> parent := None, parentIndex := None \<rparr>]))"

definition Element_children :: "heap \<Rightarrow> eid \<Rightarrow> node list" where
  "Element_children h this = filter (\<lambda>child. child \<noteq> Hole) (children (h ! this))"

definition tagName :: "heap \<Rightarrow> eid \<Rightarrow> jsstring" where
  "tagName h this = toUpperCase (realName (h ! this))"

definition Element_setAttribute :: "eid \<Rightarrow> jsstring \<Rightarrow> jsstring \<Rightarrow> heap \<Rightarrow> (error + unit) \<times> heap" where
  "Element_setAttribute this nm val h =
     (if \<not> validateToken nm then (Inl UnsafeAttributeName, h)
      else if \<not> validateText val then (Inl UnsafeAttributeValue, h)
      else (Inr (), h[this := (h ! this)\<lparr> attributes := AList.update nm val (attributes (h ! this)) \<rparr>]))"

definition getAttribute :: "heap \<Rightarrow> eid \<Rightarrow> jsstring \<Rightarrow> jsstring option" where
  "getAttribute h this nm = map_of (attributes (h ! this)) nm"

definition hasAttribute :: "heap \<Rightarrow> eid \<Rightarrow> jsstring \<Rightarrow> bool" where
  "hasAttribute h this nm \<longleftrightarrow> nm \<in> fst ` set (attributes (h ! this))"

definition Element_removeAttribute :: "eid \<Rightarrow> jsstring \<Rightarrow> heap \<Rightarrow> heap" where
  "Element_removeAttribute this nm h =
     h[this := (h ! this)\<lparr> attributes := AList.delete nm (attributes (h ! this)) \<rparr>]"

text \<open>
  \<^verbatim>\<open>clear\<close> iterates over the live children array: slot \<open>i\<close> is read when the loop
  reaches it, after the removals of the slots before it. \<^verbatim>\<open>remove\<close> never changes
  the length of an array, so the loop visits the indices below the initial length.
\<close>

definition clearStep :: "eid \<Rightarrow> heap \<Rightarrow> nat \<Rightarrow> heap" where
  "clearStep this h i =
     (case children (h ! this) ! i of
        Hole \<Rightarrow> h
      | ElementNode child \<Rightarrow> Element_remove child h
      | TextNode text \<Rightarrow> h)"

definition Element_clear :: "eid \<Rightarrow> heap \<Rightarrow> heap" where
  "Element_clear this h =
     (let h1 = foldl (clearStep this) h [0..<length (children (h ! this))]
      in h1[this := (h1 ! this)\<lparr> children := [] \<rparr>])"

text \<open>
  The loop shared by the \<^verbatim>\<open>innerHTML\<close> and \<^verbatim>\<open>innerText\<close> getters: holes are
  skipped, a string child adds \<open>escapeText child\<close>, an element child adds what
  \<open>ofElement\<close> returns for it (its \<^verbatim>\<open>toString ()\<close>, or its \<^verbatim>\<open>innerText\<close>).
\<close>

fun joinChildren ::
  "(eid \<Rightarrow> (error + jsstring) option) \<Rightarrow> node list \<Rightarrow> jsstring \<Rightarrow> (error + jsstring) option" where
  "joinChildren ofElement [] str = Some (Inr str)"
| "joinChildren ofElement (Hole # rest) str = joinChildren ofElement rest str"
| "joinChildren ofElement (ElementNode child # rest) str =
     (case ofElement child of
        None \<Rightarrow> None
      | Some (Inl err) \<Rightarrow> Some (Inl err)
      | Some (Inr s) \<Rightarrow> joinChildren ofElement rest (str @ s))"
| "joinChildren ofElement (TextNode text # rest) str =
     (case escapeText text of
        Inl err \<Rightarrow> Some (Inl err)
      | Inr s \<Rightarrow> joinChildren ofElement rest (str @ s))"

text \<open>
  The attribute loop of \<^verbatim>\<open>outerHTML\<close>. The keys of the attribute object are unique,
  so sorting the keys and looking each one up visits the entries in the order of their
  keys. \<^verbatim>\<open>Array.prototype.sort\<close> without a comparator orders strings by code units.
\<close>

fun attributesLoop :: "(jsstring \<times> jsstring) list \<Rightarrow> jsstring \<Rightarrow> error + jsstring" where
  "attributesLoop [] str = Inr str"
| "attributesLoop ((nm, val) # rest) str =
     (case escapeText val of
        Inl err \<Rightarrow> Inl err
      | Inr v \<Rightarrow> attributesLoop rest (str @ [0x09] @ nm @ js ''='' @ [0x27] @ v @ [0x27]))"

text \<open>
  The getters recurse through the children; the first argument bounds the depth of the
  recursion, and \<open>None\<close> is a recursion that did not end within it.
\<close>

primrec outerHTML :: "nat \<Rightarrow> heap \<Rightarrow> eid \<Rightarrow> (error + jsstring) option" where
  "outerHTML 0 h this = None"
| "outerHTML (Suc n) h this =
     (case attributesLoop (sort_key fst (attributes (h ! this))) (js ''<'' @ realName (h ! this)) of
        Inl err \<Rightarrow> Some (Inl err)
      | Inr str \<Rightarrow>
          if void (h ! this) then Some (Inr (str @ js ''/>''))
          else (case joinChildren (outerHTML n h) (children (h ! this)) [] of
                  None \<Rightarrow> None
                | Some (Inl err) \<Rightarrow> Some (Inl err)
                | Some (Inr inner) \<Rightarrow>
                    Some (Inr (str @ js ''>'' @ inner @ js ''</'' @ realName (h ! this) @ js ''>''))))"

definition innerHTML :: "nat \<Rightarrow> heap \<Rightarrow> eid \<Rightarrow> (error + jsstring) option" where
  "innerHTML n h this = joinChildren (outerHTML n h) (children (h ! this)) []"

primrec innerText :: "nat \<Rightarrow> heap \<Rightarrow> eid \<Rightarrow> (error + jsstring) option" where
  "innerText 0 h this = None"
| "innerText (Suc n) h this = joinChildren (innerText n h) (children (h ! this)) []"

definition Element_set_innerText :: "eid \<Rightarrow> jsstring \<Rightarrow> unit js" where
  "Element_set_innerText this text =
     bindJ (liftH (Element_clear this)) (\<lambda>u. Element_append this [TextArg text])"

definition Element_toString :: "nat \<Rightarrow> heap \<Rightarrow> eid \<Rightarrow> (error + jsstring) option" where
  "Element_toString n h this = outerHTML n h this"

section \<open>Document\<close>

record Document =
  html :: eid
  head :: eid
  body :: eid
  charset :: eid
  title :: eid

definition setDocument :: "eid \<Rightarrow> nat \<Rightarrow> heap \<Rightarrow> heap" where
  "setDocument e d h = h[e := (h ! e)\<lparr> document := Some d \<rparr>]"

text \<open>The constructor; \<open>d\<close> is the identity of the document under construction.\<close>

definition Document_new :: "nat \<Rightarrow> Document js" where
  "Document_new d =
     bindJ (liftE (Element_new (js ''html''))) (\<lambda>html.
     bindJ (liftH (setDocument html d)) (\<lambda>u.
     bindJ (liftE (Element_setAttribute html (js ''xmlns'') (js ''http://www.w3.org/1999/xhtml''))) (\<lambda>u.
     bindJ (liftE (Element_setAttribute html (js ''xmlns:xlink'') (js ''http://www.w3.org/1999/xlink''))) (\<lambda>u.
     bindJ (liftE (Element_new (js ''head''))) (\<lambda>head.
     bindJ (Element_append html [ElementArg head]) (\<lambda>u.
     bindJ (liftE (Element_new (js ''body''))) (\<lambda>body.
     bindJ (Element_append html [ElementArg body]) (\<lambda>u.
     bindJ (liftE (Element_new (js ''meta''))) (\<lambda>charset.
     bindJ (liftE (Element_setAttribute charset (js ''charset'') (js ''UTF-8''))) (\<lambda>u.
     bindJ (Element_append head [ElementArg charset]) (\<lambda>u.
     bindJ (liftE (Element_new (js ''title''))) (\<lambda>title.
     bindJ (Element_append head [ElementArg title]) (\<lambda>u.
     (\<lambda>h. Some (Inr \<lparr> html = html, head = head, body = body, charset = charset,
                       title = title \<rparr>, h)))))))))))))))"

definition Document_get_title :: "nat \<Rightarrow> Document \<Rightarrow> heap \<Rightarrow> (error + jsstring) option" where
  "Document_get_title n doc h = innerText n h (title doc)"

definition Document_set_title :: "Document \<Rightarrow> jsstring \<Rightarrow> unit js" where
  "Document_set_title doc aTitle = Element_set_innerText (title doc) aTitle"

definition Document_toString :: "nat \<Rightarrow> Document \<Rightarrow> heap \<Rightarrow> (error + jsstring) option" where
  "Document_toString n doc h =
     (case Element_toString n h (html doc) of
        None \<Rightarrow> None
      | Some (Inl err) \<Rightarrow> Some (Inl err)
      | Some (Inr s) \<Rightarrow> Some (Inr (js ''<!DOCTYPE'' @ [0x09] @ js ''html>'' @ s)))"

section \<open>Notions of the specification\<close>

text \<open>
  What one unit becomes under the five replacements of \<open>escapeText\<close>, taken together.
\<close>

definition escapeUnit :: "16 word \<Rightarrow> jsstring" where
  "escapeUnit u =
     (if u = 0x26 then js ''&amp;''
      else if u = 0x3C then js ''&lt;''
      else if u = 0x3E then js ''&gt;''
      else if u = 0x27 then js ''&apos;''
      else if u = 0x22 then js ''&quot;''
      else [u])"

text \<open>
  The inverse of the five entity substitutions, which the specification calls
  \<^verbatim>\<open>unescape\<close> and the source does not have: reading from the left, each of the five
  entities becomes its character, and every other unit stays.
\<close>

fun unescape :: "jsstring \<Rightarrow> jsstring" where
  "unescape [] = []"
| "unescape (u # us) =
     (if u = 0x26 \<and> take 4 us = js ''amp;'' then 0x26 # unescape (drop 4 us)
      else if u = 0x26 \<and> take 3 us = js ''lt;'' then 0x3C # unescape (drop 3 us)
      else if u = 0x26 \<and> take 3 us = js ''gt;'' then 0x3E # unescape (drop 3 us)
      else if u = 0x26 \<and> take 5 us = js ''apos;'' then 0x27 # unescape (drop 5 us)
      else if u = 0x26 \<and> take 5 us = js ''quot;'' then 0x22 # unescape (drop 5 us)
      else u # unescape us)"

text \<open>\<open>ancestor h a e\<close>: \<open>a\<close> is on the parent chain of \<open>e\<close>, above \<open>e\<close>.\<close>

inductive ancestor :: "heap \<Rightarrow> eid \<Rightarrow> eid \<Rightarrow> bool" for h :: heap where
  parent: "parent (h ! e) = Some p \<Longrightarrow> ancestor h p e"
| above: "parent (h ! e) = Some p \<Longrightarrow> ancestor h a p \<Longrightarrow> ancestor h a e"

text \<open>
  The error of \<^verbatim>\<open>x.append (e)\<close> when it fails on its one element argument, by the
  order of the checks in \<^verbatim>\<open>append\<close>.
\<close>

definition appendError :: "heap \<Rightarrow> eid \<Rightarrow> eid \<Rightarrow> error" where
  "appendError h x e =
     (if void (h ! x) then VoidElementError
      else if \<not> escapable (h ! x) then NotEscapableError
      else if parent (h ! e) \<noteq> None then AlreadyChildError
      else if raw (h ! x) then RawTextChildError
      else CyclicReferenceError)"

text \<open>
  The stores a program can build: it starts with no element and calls the constructor
  and the methods, on elements it has. The \<open>innerText\<close> setter is \<open>clear\<close> followed
  by \<open>append\<close>, and the constructor of \<open>Document\<close> is made of these steps and of
  \<open>setDocument\<close>.
\<close>

inductive reachable :: "heap \<Rightarrow> bool" where
  start: "reachable []"
| new: "reachable h \<Longrightarrow> reachable (snd (Element_new tag h))"
| append:
    "reachable h \<Longrightarrow> this < length h \<Longrightarrow> \<forall>c. ElementArg c \<in> set args \<longrightarrow> c < length h \<Longrightarrow>
     Element_append this args h = Some (r, h') \<Longrightarrow> reachable h'"
| remove: "reachable h \<Longrightarrow> this < length h \<Longrightarrow> reachable (Element_remove this h)"
| setAttribute:
    "reachable h \<Longrightarrow> this < length h \<Longrightarrow> reachable (snd (Element_setAttribute this nm val h))"
| removeAttribute:
    "reachable h \<Longrightarrow> this < length h \<Longrightarrow> reachable (Element_removeAttribute this nm h)"
| clear: "reachable h \<Longrightarrow> this < length h \<Longrightarrow> reachable (Element_clear this h)"
| setDocument: "reachable h \<Longrightarrow> e < length h \<Longrightarrow> reachable (setDocument e d h)"

text \<open>What the constructor and \<open>setAttribute\<close> establish for one element.\<close>

definition flagsOf :: "element \<Rightarrow> bool" where
  "flagsOf e \<longleftrightarrow>
     validateToken (realName e) \<and> name e = toLowerCase (realName e)
     \<and> void e = (name e \<in> set VOID_ELEMENTS)
     \<and> raw e = (name e \<in> set RAW_TEXT_ELEMENTS \<or> name e \<in> set ESCAPABLE_RAW_TEXT_ELEMENTS)
     \<and> escapable e = (name e \<notin> set RAW_TEXT_ELEMENTS)"

definition attributesValid :: "element \<Rightarrow> bool" where
  "attributesValid e \<longleftrightarrow>
     distinct (map fst (attributes e))
     \<and> (\<forall>(nm, val) \<in> set (attributes e). validateToken nm \<and> validateText val)"

definition elementInv :: "element \<Rightarrow> bool" where
  "elementInv e \<longleftrightarrow> flagsOf e \<and> attributesValid e \<and> (void e \<longrightarrow> children e = [])"

text \<open>
  \<open>outerHTML\<close> in the words of the specification: \<^verbatim>\<open><\<close> and the real name, then
  each attribute, sorted by name in ascending code-point order, as a tab, the name,
  \<^verbatim>\<open>='\<close>, the escaped value and \<^verbatim>\<open>'\<close>, then \<^verbatim>\<open>/>\<close> for a void element, and
  otherwise \<^verbatim>\<open>>\<close>, the \<open>innerHTML\<close>, \<^verbatim>\<open></\<close>, the real name and \<^verbatim>\<open>>\<close>.
\<close>

definition attribute_spec :: "jsstring \<times> jsstring \<Rightarrow> jsstring" where
  "attribute_spec a = [0x09] @ fst a @ js ''='' @ [0x27] @ escapeReplace (snd a) @ [0x27]"

definition outerHTML_spec :: "nat \<Rightarrow> heap \<Rightarrow> eid \<Rightarrow> (error + jsstring) option" where
  "outerHTML_spec n h e =
     (let start = js ''<'' @ realName (h ! e)
            @ concat (map attribute_spec (sort_key (\<lambda>a. codePoints (fst a)) (attributes (h ! e))))
      in if void (h ! e) then Some (Inr (start @ js ''/>''))
         else (case innerHTML n h e of
                 None \<Rightarrow> None
               | Some (Inl err) \<Rightarrow> Some (Inl err)
               | Some (Inr inner) \<Rightarrow>
                   Some (Inr (start @ js ''>'' @ inner @ js ''</'' @ realName (h ! e) @ js ''>''))))"

text \<open>
  The five elements that the constructor of \<open>Document\<close> adds to a store of \<open>n\<close>
  elements, as it leaves them.
\<close>

definition skeleton :: "nat \<Rightarrow> nat \<Rightarrow> element list" where
  "skeleton d n =
     [\<lparr> attributes = [(js ''xmlns'', js ''http://www.w3.org/1999/xhtml''),
                       (js ''xmlns:xlink'', js ''http://www.w3.org/1999/xlink'')],
         children = [ElementNode (n + 1), ElementNode (n + 2)],
         realName = js ''html'', name = js ''html'', void = False, raw = False,
         escapable = True, parent = None, parentIndex = None, document = Some d \<rparr>,
      \<lparr> attributes = [], children = [ElementNode (n + 3), ElementNode (n + 4)],
         realName = js ''head'', name = js ''head'', void = False, raw = False,
         escapable = True, parent = Some n, parentIndex = Some 0, document = None \<rparr>,
      \<lparr> attributes = [], children = [],
         realName = js ''body'', name = js ''body'', void = False, raw = False,
         escapable = True, parent = Some n, parentIndex = Some 1, document = None \<rparr>,
      \<lparr> attributes = [(js ''charset'', js ''UTF-8'')], children = [],
         realName = js ''meta'', name = js ''meta'', void = True, raw = False,
         escapable = True, parent = Some (n + 1), parentIndex = Some 0, document = None \<rparr>,
      \<lparr> attributes = [], children = [],
         realName = js ''title'', name = js ''title'', void = False, raw = True,
         escapable = True, parent = Some (n + 1), parentIndex = Some 1, document = None \<rparr>]"

definition skeletonDocument :: "nat \<Rightarrow> Document" where
  "skeletonDocument n =
     \<lparr> html = n, head = n + 1, body = n + 2, charset = n + 3, title = n + 4 \<rparr>"

definition specialUnit :: "16 word \<Rightarrow> bool" where
  "specialUnit u \<longleftrightarrow> u = 0x26 \<or> u = 0x3C \<or> u = 0x3E \<or> u = 0x27 \<or> u = 0x22"

section \<open>Example stores\<close>

definition heap_br :: heap where
  "heap_br = snd (Element_new (js ''br'') [])"

definition heap_div_span :: heap where
  "heap_div_span = snd (Element_new (js ''span'') (snd (Element_new (js ''div'') [])))"

definition heap_attached :: heap where
  "heap_attached = snd (the (Element_append 0 [ElementArg 1] heap_div_span))"

definition heap_three :: heap where
  "heap_three =
     snd (Element_new (js ''b'') (snd (Element_new (js ''a'') (snd (Element_new (js ''div'') [])))))"

definition heap_appended :: heap where
  "heap_appended = snd (the (Element_append 0 [ElementArg 1, ElementArg 2] heap_three))"

definition heap_div :: heap where
  "heap_div = snd (Element_new (js ''div'') [])"

definition value_data_x :: jsstring where
  "value_data_x = js ''a'b'' @ [0x22] @ js ''c<d>e&f''"

definition heap_div_data_x :: heap where
  "heap_div_data_x = snd (Element_setAttribute 0 (js ''data-x'') value_data_x heap_div)"

definition heap_titled :: heap where
  "heap_titled =
     snd (the (Document_set_title (skeletonDocument 0) (js ''Hello & <you>'') (skeleton 0 0)))"

text \<open>
  \<^verbatim>\<open>p.append ('t', c); c.remove (); p.append (d, c)\<close> on three new elements
  \<^verbatim>\<open>p\<close>, \<^verbatim>\<open>c\<close>, \<^verbatim>\<open>d\<close> (0, 1, 2).
\<close>

definition heap_text_c :: heap where
  "heap_text_c = snd (the (Element_append 0 [TextArg (js ''t''), ElementArg 1] heap_three))"

definition heap_c_removed :: heap where
  "heap_c_removed = Element_remove 1 heap_text_c"

definition heap_d_c :: heap where
  "heap_d_c = snd (the (Element_append 0 [ElementArg 2, ElementArg 1] heap_c_removed))"

section \<open>Facts about the grammars\<close>

lemma textChar_imp_spec: "textChar c \<Longrightarrow> textChar_spec c"
  by (auto simp: textChar_def textChar_spec_def)

lemma validateText_imp_spec: "validateText s \<Longrightarrow> textGrammar_spec s"
  by (simp add: validateText_def textGrammar_spec_def list_all_iff textChar_imp_spec)

lemma validateText_Nil: "validateText []"
  by (simp add: validateText_def)

text \<open>
  C2. The Text grammar accepts a string exactly when every code point lies in
  U+0009, U+000A, U+000D, U+0020 to U+D7FF, U+E000 to U+FFFD, U+10000 to U+10FFFF.
  The code departs from it: of the range U+E000 to U+FFFD only its two end points are
  accepted. The one-unit string U+FF01 is in the grammar and \<open>validateText\<close> rejects it,
  as it rejects U+E001 and U+FFFC; the empty string and the two end points are accepted.
\<close>

theorem C2_validateText_rejects_E001_to_FFFC:
  "textGrammar_spec [0xFF01] \<and> \<not> validateText [0xFF01]
   \<and> textGrammar_spec [0xE001] \<and> \<not> validateText [0xE001]
   \<and> textGrammar_spec [0xFFFC] \<and> \<not> validateText [0xFFFC]
   \<and> validateText [0xE000] \<and> validateText [0xFFFD] \<and> validateText []"
  by (simp add: textGrammar_spec_def validateText_def textChar_def textChar_spec_def)

section \<open>Evaluation\<close>

lemmas eval_defs = Element_new_def Element_append_def Element_remove_def Element_children_def
  Element_setAttribute_def Element_clear_def clearStep_def Element_set_innerText_def
  bindJ_def liftE_def liftH_def parentElement_def cyclicWalk.simps
  validateToken_def validateText_def textChar_def escapeText_def escapeReplace_def replaceAll_def
  js_def toLowerCase_def VOID_ELEMENTS_def RAW_TEXT_ELEMENTS_def ESCAPABLE_RAW_TEXT_ELEMENTS_def
  nameStart_def nameChar_def isHighSurrogate_def isLowSurrogate_def
  Document_new_def setDocument_def Document_toString_def Element_toString_def innerHTML_def
  Document_get_title_def Document_set_title_def

section \<open>Escaping and its inverse\<close>

lemma replaceAll_append: "replaceAll c rep (s @ t) = replaceAll c rep s @ replaceAll c rep t"
  by (simp add: replaceAll_def)

lemma replaceAll_concat_map:
  "replaceAll c rep (concat (map f s)) = concat (map (\<lambda>u. replaceAll c rep (f u)) s)"
  by (induction s) (simp_all add: replaceAll_append, simp add: replaceAll_def)

lemma replaceAll_as_concat: "replaceAll c rep s = concat (map (\<lambda>u. replaceAll c rep [u]) s)"
  by (simp add: replaceAll_def)

lemma escapeUnit_chain:
  "replaceAll 0x22 (js ''&quot;'')
     (replaceAll 0x27 (js ''&apos;'')
       (replaceAll 0x3E (js ''&gt;'')
         (replaceAll 0x3C (js ''&lt;'')
           (replaceAll 0x26 (js ''&amp;'') [u])))) = escapeUnit u"
  by (simp add: replaceAll_def escapeUnit_def js_def)

text \<open>
  The five replacements in the order of the source amount to one pass that replaces
  each unit once: the ampersands that the first replacement writes are never read by it
  again, and the later four do not match what the earlier ones wrote.
\<close>

lemma escapeReplace_units: "escapeReplace s = concat (map escapeUnit s)"
proof -
  have "escapeReplace s =
    concat (map (\<lambda>u. replaceAll 0x22 (js ''&quot;'')
       (replaceAll 0x27 (js ''&apos;'')
         (replaceAll 0x3E (js ''&gt;'')
           (replaceAll 0x3C (js ''&lt;'')
             (replaceAll 0x26 (js ''&amp;'') [u]))))) s)"
    unfolding escapeReplace_def
    by (subst replaceAll_as_concat [of "0x26"]) (simp only: replaceAll_concat_map)
  then show ?thesis by (simp only: escapeUnit_chain)
qed

lemma unescape_escapeUnit: "unescape (escapeUnit u @ r) = u # unescape r"
  by (simp add: escapeUnit_def js_def)

lemma unescape_units: "unescape (concat (map escapeUnit s)) = s"
  by (induction s) (simp_all add: unescape_escapeUnit del: unescape.simps(2))

lemma unescape_escapeReplace: "unescape (escapeReplace s) = s"
  by (simp add: escapeReplace_units unescape_units)

lemma escapeReplace_inj: "escapeReplace s = escapeReplace t \<Longrightarrow> s = t"
  by (metis unescape_escapeReplace)

lemma escapeText_valid: "validateText s \<Longrightarrow> escapeText s = Inr (escapeReplace s)"
  by (simp add: escapeText_def)

lemma escapeText_roundtrip_accepted:
  "validateText s \<Longrightarrow> \<exists>t. escapeText s = Inr t \<and> unescape t = s"
  by (simp add: escapeText_valid unescape_escapeReplace)

text \<open>
  C7. For every string \<open>s\<close> of the Text grammar, the inverse of the five substitutions
  applied to \<open>escapeText s\<close> gives \<open>s\<close> again. On the strings that \<open>validateText\<close>
  accepts this holds (\<open>escapeText_roundtrip_accepted\<close>, \<open>escapeReplace_inj\<close>). The
  string U+FF01 is in the Text grammar, and \<open>escapeText\<close> throws on it: there is no
  escaped text to take back.
\<close>

theorem C7_escapeText_throws_in_grammar:
  "textGrammar_spec [0xFF01] \<and> escapeText [0xFF01] = Inl InvalidTextError
   \<and> unescape (escapeReplace [0xFF01]) = [0xFF01]"
  by (simp add: textGrammar_spec_def textChar_spec_def escapeText_def validateText_def
      textChar_def unescape_escapeReplace)

section \<open>append\<close>

lemma validateChildren_errors:
  "validateChildren h this args = Some (Inl err) \<Longrightarrow>
   err \<in> {InvalidTextError, AlreadyChildError, RawTextChildError, CyclicReferenceError}"
  by (induction h this args rule: validateChildren.induct)
     (auto split: if_splits option.splits bool.splits)

text \<open>The second loop does not throw: once validation has passed, \<open>append\<close> succeeds.\<close>

lemma append_succeeds_after_validation:
  assumes "\<not> void (h ! this)" "escapable (h ! this)" "validateChildren h this args = Some (Inr ())"
  shows "\<exists>h'. Element_append this args h = Some (Inr (), h')"
  using assms by (simp add: Element_append_def split: prod.splits)

text \<open>
  C4. \<open>append\<close> is atomic: if it raises an error (one of the six), the store is the
  store before the call, so the children of the receiver and the parent link of every
  argument are as they were.
\<close>

theorem C4_append_atomic:
  assumes "Element_append this args h = Some (Inl err, h')"
  shows "h' = h \<and> err \<in> {VoidElementError, NotEscapableError, InvalidTextError,
            AlreadyChildError, RawTextChildError, CyclicReferenceError}"
  using assms validateChildren_errors [of h this args err]
  by (auto simp: Element_append_def split: if_splits option.splits sum.splits prod.splits)

theorem C4_append_atomic_witness:
  "Element_append 0 [ElementArg 1, TextArg [0x0]] heap_div_span
     = Some (Inl InvalidTextError, heap_div_span)
   \<and> parent (heap_div_span ! 1) = None \<and> children (heap_div_span ! 0) = []"
proof -
  have a: "Element_append 0 [ElementArg 1, TextArg [0x0]] heap_div_span
     = Some (Inl InvalidTextError, heap_div_span)"
    by (simp add: heap_div_span_def eval_defs)
  from C4_append_atomic [OF a] show ?thesis using a
    by (simp add: heap_div_span_def eval_defs)
qed

text \<open>
  C1. The position recorded for an appended element is the slot it occupies, so that
  \<open>remove\<close> makes a hole of its own slot. In \<^verbatim>\<open>p.append (a, b)\<close> on an empty
  \<^verbatim>\<open>p\<close> both \<^verbatim>\<open>a\<close> and \<^verbatim>\<open>b\<close> get position 0, the length of the children array
  before the call, while \<^verbatim>\<open>b\<close> sits in slot 1: \<^verbatim>\<open>b.remove ()\<close> then makes a hole of
  the slot of \<^verbatim>\<open>a\<close>. Afterwards \<^verbatim>\<open>b\<close> is still in the filtered children of \<^verbatim>\<open>p\<close>,
  and \<^verbatim>\<open>a\<close>, which still has \<^verbatim>\<open>p\<close> as its parent, is not.
\<close>

theorem C1_remove_deletes_sibling:
  "Element_append 0 [ElementArg 1, ElementArg 2] heap_three = Some (Inr (), heap_appended)
   \<and> children (heap_appended ! 0) = [ElementNode 1, ElementNode 2]
   \<and> parentIndex (heap_appended ! 1) = Some 0
   \<and> parentIndex (heap_appended ! 2) = Some 0
   \<and> Element_children (Element_remove 2 heap_appended) 0 = [ElementNode 2]
   \<and> parentElement (Element_remove 2 heap_appended) 2 = None
   \<and> parentElement (Element_remove 2 heap_appended) 1 = Some 0"
  by (simp add: heap_appended_def heap_three_def eval_defs)

lemma ancestor_has_parent: "ancestor h a e \<Longrightarrow> parent (h ! e) \<noteq> None"
  by (erule ancestor.cases) simp_all

lemma cyclicWalk_self: "cyclicWalk h e e = Some True"
  by (simp add: cyclicWalk.simps)

lemma cyclicWalk_ancestor: "ancestor h a x \<Longrightarrow> cyclicWalk h a x = Some True"
proof (induction rule: ancestor.induct)
  case (parent e p)
  then show ?case
    by (subst cyclicWalk.simps) (simp add: parentElement_def cyclicWalk_self)
next
  case (above e p a)
  then show ?case
    by (subst cyclicWalk.simps) (simp add: parentElement_def)
qed

text \<open>
  C5, as the code has it. When \<open>x\<close> is \<open>e\<close> itself, or is on the parent chain of \<open>e\<close>,
  or has \<open>e\<close> on its own parent chain, \<^verbatim>\<open>x.append (e)\<close> fails and leaves the store as
  it was. The error is the first that applies in the order of the checks: 'Void element'
  if \<open>x\<close> is void, 'Raw text elements should not have contents' if \<open>x\<close> is not
  escapable, 'Already a child' if \<open>e\<close> has a parent (always so when \<open>x\<close> is above
  \<open>e\<close>), 'Raw text elements cannot have element children' if \<open>x\<close> is raw, and
  'Cyclic reference' otherwise.
\<close>

theorem C5_append_on_own_chain_fails:
  assumes "x = e \<or> ancestor h x e \<or> ancestor h e x"
  shows "Element_append x [ElementArg e] h = Some (Inl (appendError h x e), h)"
proof -
  have walk: "parent (h ! e) = None \<Longrightarrow> cyclicWalk h e x = Some True"
    using assms cyclicWalk_self cyclicWalk_ancestor ancestor_has_parent by blast
  show ?thesis
    by (auto simp: Element_append_def appendError_def parentElement_def walk)
qed

theorem C5_append_on_own_chain_fails_witness:
  "ancestor heap_attached 0 1
   \<and> Element_append 0 [ElementArg 1] heap_attached = Some (Inl AlreadyChildError, heap_attached)
   \<and> Element_append 1 [ElementArg 0] heap_attached = Some (Inl CyclicReferenceError, heap_attached)
   \<and> Element_append 0 [ElementArg 0] heap_attached = Some (Inl CyclicReferenceError, heap_attached)"
proof -
  have a: "ancestor heap_attached 0 1"
    by (rule ancestor.parent) (simp add: heap_attached_def heap_div_span_def eval_defs)
  have e: "appendError heap_attached 0 1 = AlreadyChildError"
      "appendError heap_attached 1 0 = CyclicReferenceError"
      "appendError heap_attached 0 0 = CyclicReferenceError"
    by (simp_all add: appendError_def heap_attached_def heap_div_span_def eval_defs)
  show ?thesis
    using a e C5_append_on_own_chain_fails [of 0 1 heap_attached]
      C5_append_on_own_chain_fails [of 1 0 heap_attached]
      C5_append_on_own_chain_fails [of 0 0 heap_attached]
    by simp
qed

text \<open>
  C5 as stated fails: \<^verbatim>\<open>br.append (br)\<close> raises 'Void element', and appending a
  child again to its parent raises 'Already a child'; neither is 'Cyclic reference'.
\<close>

theorem C5_not_always_cyclic_counterexample:
  "Element_append 0 [ElementArg 0] heap_br = Some (Inl VoidElementError, heap_br)
   \<and> Element_append 0 [ElementArg 0] heap_br \<noteq> Some (Inl CyclicReferenceError, heap_br)
   \<and> parentElement heap_attached 1 = Some 0
   \<and> Element_append 0 [ElementArg 1] heap_attached = Some (Inl AlreadyChildError, heap_attached)
   \<and> Element_append 0 [ElementArg 1] heap_attached \<noteq> Some (Inl CyclicReferenceError, heap_attached)"
  by (simp add: heap_br_def heap_attached_def heap_div_span_def eval_defs)

section \<open>What every reachable store satisfies\<close>

lemma nth_update_cases:
  "(h[i := v]) ! j = (if j = i \<and> i < length h then v else h ! j)"
  by (cases "i < length h") (auto simp: nth_list_update list_update_beyond not_less)

lemma list_all_update:
  "list_all P h \<Longrightarrow> (i < length h \<Longrightarrow> P v) \<Longrightarrow> list_all P (h[i := v])"
  by (cases "i < length h")
     (auto simp: list_all_iff list_update_beyond not_less dest: set_update_subset_insert [THEN subsetD])

lemma list_all_nth: "list_all P h \<Longrightarrow> i < length h \<Longrightarrow> P (h ! i)"
  by (simp add: list_all_length)

lemma set_update_alist: "set (AList.update k v al) \<subseteq> insert (k, v) (set al)"
  by (induction al) auto

lemma set_delete_alist: "set (AList.delete k al) \<subseteq> set al"
  by (auto simp: AList.delete_eq)

lemma elementInv_parent [simp]:
  "elementInv (e\<lparr>parent := p\<rparr>) = elementInv e"
  "elementInv (e\<lparr>parentIndex := i\<rparr>) = elementInv e"
  "elementInv (e\<lparr>document := d\<rparr>) = elementInv e"
  by (simp_all add: elementInv_def flagsOf_def attributesValid_def)

lemma elementInv_hole: "elementInv e \<Longrightarrow> elementInv (e\<lparr>children := (children e)[i := Hole]\<rparr>)"
  by (simp add: elementInv_def flagsOf_def attributesValid_def)

lemma elementInv_no_children: "elementInv e \<Longrightarrow> elementInv (e\<lparr>children := []\<rparr>)"
  by (simp add: elementInv_def flagsOf_def attributesValid_def)

lemma elementInv_more_children:
  "elementInv e \<Longrightarrow> \<not> void e \<Longrightarrow> elementInv (e\<lparr>children := cs\<rparr>)"
  by (auto simp: elementInv_def flagsOf_def attributesValid_def)

lemma elementInv_setAttribute:
  assumes "elementInv e" "validateToken nm" "validateText val"
  shows "elementInv (e\<lparr>attributes := AList.update nm val (attributes e)\<rparr>)"
  using assms set_update_alist [of nm val "attributes e"]
  by (auto simp: elementInv_def flagsOf_def attributesValid_def distinct_update)

lemma elementInv_removeAttribute:
  assumes "elementInv e"
  shows "elementInv (e\<lparr>attributes := AList.delete nm (attributes e)\<rparr>)"
  using assms set_delete_alist [of nm "attributes e"]
  by (auto simp: elementInv_def flagsOf_def attributesValid_def distinct_delete)

lemma inv_new: "list_all elementInv h \<Longrightarrow> list_all elementInv (snd (Element_new tag h))"
  by (simp add: Element_new_def elementInv_def flagsOf_def attributesValid_def)

lemma inv_remove: "list_all elementInv h \<Longrightarrow> list_all elementInv (Element_remove this h)"
  by (auto simp: Element_remove_def Let_def split: option.splits
      intro!: list_all_update elementInv_hole dest: list_all_nth simp: nth_update_cases)

lemma length_remove [simp]: "length (Element_remove this h) = length h"
  by (simp add: Element_remove_def Let_def split: option.splits)

lemma inv_setAttribute:
  "list_all elementInv h \<Longrightarrow> list_all elementInv (snd (Element_setAttribute this nm val h))"
  by (auto simp: Element_setAttribute_def intro!: list_all_update elementInv_setAttribute
      dest: list_all_nth)

lemma inv_removeAttribute:
  "list_all elementInv h \<Longrightarrow> list_all elementInv (Element_removeAttribute this nm h)"
  by (auto simp: Element_removeAttribute_def intro!: list_all_update elementInv_removeAttribute
      dest: list_all_nth)

lemma inv_setDocument: "list_all elementInv h \<Longrightarrow> list_all elementInv (setDocument e d h)"
  by (auto simp: setDocument_def intro!: list_all_update dest: list_all_nth)

lemma inv_clearStep: "list_all elementInv h \<Longrightarrow> list_all elementInv (clearStep this h i)"
  by (simp add: clearStep_def inv_remove split: node.splits)

lemma inv_clear_loop:
  "list_all elementInv h \<Longrightarrow> list_all elementInv (foldl (clearStep this) h is)"
  by (induction "is" arbitrary: h) (simp_all add: inv_clearStep)

lemma inv_clear: "list_all elementInv h \<Longrightarrow> list_all elementInv (Element_clear this h)"
  by (auto simp: Element_clear_def Let_def intro!: list_all_update elementInv_no_children
      dest: list_all_nth inv_clear_loop)

lemma attachChildren_frame:
  "length (fst (attachChildren this args h tmp)) = length h
   \<and> void (fst (attachChildren this args h tmp) ! x) = void (h ! x)
   \<and> children (fst (attachChildren this args h tmp) ! x) = children (h ! x)"
  by (induction this args h tmp rule: attachChildren.induct) (simp_all add: nth_update_cases)

lemma inv_attachChildren:
  "list_all elementInv h \<Longrightarrow> list_all elementInv (fst (attachChildren this args h tmp))"
proof (induction this args h tmp rule: attachChildren.induct)
  case (2 this child rest h tmp)
  have "list_all elementInv (h[child := (h ! child)\<lparr>parent := Some this,
          parentIndex := Some (length (children (h ! this)))\<rparr>])"
    using "2.prems" by (auto intro!: list_all_update dest: list_all_nth)
  then show ?case using "2.IH" by simp
qed simp_all

lemma inv_append:
  assumes "list_all elementInv h" "Element_append this args h = Some (r, h')"
  shows "list_all elementInv h'"
proof (cases "void (h ! this) \<or> \<not> escapable (h ! this)")
  case True
  with assms show ?thesis by (auto simp: Element_append_def split: if_splits)
next
  case False
  obtain h1 tmp where a: "attachChildren this args h [] = (h1, tmp)" by force
  have h1: "list_all elementInv h1" "length h1 = length h" "void (h1 ! this) = void (h ! this)"
    using inv_attachChildren [OF assms(1), of this args "[]"]
      attachChildren_frame [of this args h "[]" this] a by simp_all
  from assms(2) False a have "h' = h \<or> h' = h1[this := (h1 ! this)\<lparr>children := children (h1 ! this) @ tmp\<rparr>]"
    by (auto simp: Element_append_def split: option.splits sum.splits)
  then show ?thesis
    using assms(1) h1 False
    by (auto intro!: list_all_update elementInv_more_children dest: list_all_nth)
qed

lemma reachable_inv: "reachable h \<Longrightarrow> list_all elementInv h"
  by (induction rule: reachable.induct)
     (simp_all add: inv_new inv_remove inv_setAttribute inv_removeAttribute inv_clear
        inv_setDocument inv_append)

text \<open>
  C8. In every store a program can build, an element whose lowercased name is in the
  void-element set has no children (at construction and after any sequence of
  operations), and every \<open>append\<close> on it fails with 'Void element' and leaves the store
  as it was.
\<close>

theorem C8_void_elements_stay_empty:
  assumes "reachable h" "e < length h" "name (h ! e) \<in> set VOID_ELEMENTS"
  shows "children (h ! e) = [] \<and> (\<forall>args. Element_append e args h = Some (Inl VoidElementError, h))"
proof -
  have "elementInv (h ! e)" using assms(1,2) by (simp add: reachable_inv list_all_nth)
  with assms(3) have "void (h ! e)" "children (h ! e) = []"
    by (simp_all add: elementInv_def flagsOf_def)
  then show ?thesis by (simp add: Element_append_def)
qed

theorem C8_void_elements_stay_empty_witness:
  "reachable heap_br \<and> name (heap_br ! 0) = js ''br'' \<and> children (heap_br ! 0) = []
   \<and> Element_append 0 [TextArg (js ''x'')] heap_br = Some (Inl VoidElementError, heap_br)"
proof -
  have r: "reachable heap_br"
    unfolding heap_br_def by (rule reachable.new [OF reachable.start])
  have n: "0 < length heap_br" "name (heap_br ! 0) \<in> set VOID_ELEMENTS" "name (heap_br ! 0) = js ''br''"
    by (simp_all add: heap_br_def eval_defs)
  from C8_void_elements_stay_empty [OF r n(1,2)] r n(3) show ?thesis by simp
qed

section \<open>The constructor of Document\<close>

lemma small_sucs:
  "n + 1 = Suc n" "n + 2 = Suc (Suc n)" "n + 3 = Suc (Suc (Suc n))"
  "n + 4 = Suc (Suc (Suc (Suc n)))"
  by simp_all

lemma Document_new_skeleton:
  "Document_new d h = Some (Inr (skeletonDocument (length h)), h @ skeleton d (length h))"
  by (simp add: skeleton_def skeletonDocument_def eval_defs nth_append list_update_append small_sucs)

lemma fuel3: "3 + k = Suc (Suc (Suc k))"
  by simp

lemma skeleton_toString:
  "Document_toString (3 + k) (skeletonDocument (length h)) (h @ skeleton d (length h)) =
     Some (Inr (js ''<!DOCTYPE'' @ [0x09] @ js ''html>''
       @ js ''<html'' @ [0x09] @ js ''xmlns='' @ [0x27] @ js ''http://www.w3.org/1999/xhtml'' @ [0x27]
       @ [0x09] @ js ''xmlns:xlink='' @ [0x27] @ js ''http://www.w3.org/1999/xlink'' @ [0x27] @ js ''>''
       @ js ''<head><meta'' @ [0x09] @ js ''charset='' @ [0x27] @ js ''UTF-8'' @ [0x27] @ js ''/>''
       @ js ''<title></title></head><body></body></html>''))"
  unfolding fuel3
  by (simp add: skeleton_def skeletonDocument_def eval_defs nth_append list_update_append small_sucs)


text \<open>
  C9. In any store, \<^verbatim>\<open>new Document ()\<close> adds the five elements of the skeleton, and
  its \<^verbatim>\<open>toString ()\<close> is the doctype prefix followed by the serialized skeleton: one
  \<^verbatim>\<open><head>\<close> holding the \<^verbatim>\<open>meta\<close> element and the empty \<^verbatim>\<open>title\<close>, and one empty
  \<^verbatim>\<open><body>\<close>. Three levels of recursion are enough.
\<close>

theorem C9_new_Document_toString:
  "Document_new d h = Some (Inr (skeletonDocument (length h)), h @ skeleton d (length h))
   \<and> Document_toString (3 + k) (skeletonDocument (length h)) (h @ skeleton d (length h)) =
     Some (Inr (js ''<!DOCTYPE'' @ [0x09] @ js ''html>''
       @ js ''<html'' @ [0x09] @ js ''xmlns='' @ [0x27] @ js ''http://www.w3.org/1999/xhtml'' @ [0x27]
       @ [0x09] @ js ''xmlns:xlink='' @ [0x27] @ js ''http://www.w3.org/1999/xlink'' @ [0x27] @ js ''>''
       @ js ''<head><meta'' @ [0x09] @ js ''charset='' @ [0x27] @ js ''UTF-8'' @ [0x27] @ js ''/>''
       @ js ''<title></title></head><body></body></html>''))
   \<and> Element_children (h @ skeleton d (length h)) (head (skeletonDocument (length h)))
       = [ElementNode (charset (skeletonDocument (length h))),
          ElementNode (title (skeletonDocument (length h)))]
   \<and> Element_children (h @ skeleton d (length h)) (body (skeletonDocument (length h))) = []
   \<and> Element_children (h @ skeleton d (length h)) (title (skeletonDocument (length h))) = []"
  using Document_new_skeleton [of d h] skeleton_toString [of k h d]
  by (simp add: Element_children_def skeleton_def skeletonDocument_def nth_append)

section \<open>outerHTML\<close>

lemma nameChar_ascii: "nameChar u \<Longrightarrow> u < 0x80"
  by (auto simp: nameChar_def word_le_nat_alt word_less_nat_alt)

lemma nameStart_ascii: "nameStart u \<Longrightarrow> u < 0x80"
  by (auto simp: nameStart_def word_le_nat_alt word_less_nat_alt)

lemma ncName_ascii: "ncName s \<Longrightarrow> u \<in> set s \<Longrightarrow> u < 0x80"
  by (cases s) (auto simp: list_all_iff nameChar_ascii nameStart_ascii)

lemma validateToken_ascii:
  assumes "validateToken s" "u \<in> set s"
  shows "u < 0x80"
proof -
  let ?P = "\<lambda>u. u \<noteq> (0x3A :: 16 word)"
  have "set s = set (takeWhile ?P s) \<union> set (dropWhile ?P s)"
    by (metis set_append takeWhile_dropWhile_id)
  with assms(2) consider "u \<in> set (takeWhile ?P s)" | "u \<in> set (dropWhile ?P s)" by blast
  then show ?thesis
  proof cases
    case 1
    with assms(1) show ?thesis by (auto simp: validateToken_def dest: ncName_ascii)
  next
    case 2
    then obtain c r where d: "dropWhile ?P s = c # r" by (cases "dropWhile ?P s") auto
    then have "c = 0x3A" using hd_dropWhile [of ?P s] by force
    with 2 d assms(1) show ?thesis
      by (auto simp: validateToken_def dest: ncName_ascii)
  qed
qed

text \<open>
  An accepted name is ASCII, so its code points are its units, and the order of
  \<^verbatim>\<open>sort ()\<close>, by units, is the order by code points.
\<close>

lemma codePoints_no_surrogates:
  "\<forall>u \<in> set s. u < 0xD800 \<Longrightarrow> codePoints s = map unat s"
  by (induction s rule: codePoints.induct) (auto simp: isHighSurrogate_def)

lemma codePoints_token: "validateToken s \<Longrightarrow> codePoints s = map unat s"
proof (rule codePoints_no_surrogates, rule ballI)
  fix u assume "validateToken s" "u \<in> set s"
  then have "u < 0x80" by (rule validateToken_ascii)
  then show "u < 0xD800" by (simp add: word_less_nat_alt)
qed

lemma map_unat_le: "map unat a \<le> map unat b \<longleftrightarrow> a \<le> (b :: 16 word list)"
proof (induction a arbitrary: b)
  case Nil
  then show ?case by simp
next
  case (Cons x a)
  then show ?case by (cases b) (auto simp: word_less_nat_alt word_unat_eq_iff)
qed

lemma insort_key_order_cong:
  assumes "\<forall>y \<in> set xs. (f x \<le> f y) = (g x \<le> g y)"
  shows "insort_key f x xs = insort_key g x xs"
  using assms by (induction xs) auto

lemma sort_key_order_cong:
  assumes "\<forall>x \<in> set xs. \<forall>y \<in> set xs. (f x \<le> f y) = (g x \<le> g y)"
  shows "sort_key f xs = sort_key g xs"
  using assms
proof (induction xs)
  case Nil
  then show ?case by simp
next
  case (Cons x xs)
  then have "sort_key f xs = sort_key g xs" by simp
  moreover have "insort_key f x (sort_key g xs) = insort_key g x (sort_key g xs)"
    using Cons.prems by (intro insort_key_order_cong) simp
  ultimately show ?case by simp
qed

lemma sort_by_code_points:
  assumes "\<forall>a \<in> set attrs. validateToken (fst a)"
  shows "sort_key (\<lambda>a. codePoints (fst a)) attrs = sort_key fst attrs"
  using assms by (intro sort_key_order_cong) (simp add: codePoints_token map_unat_le)

lemma attributesLoop_valid:
  "\<forall>a \<in> set attrs. validateText (snd a) \<Longrightarrow>
   attributesLoop attrs str = Inr (str @ concat (map attribute_spec attrs))"
  by (induction attrs str rule: attributesLoop.induct)
     (simp_all add: escapeText_valid attribute_spec_def)

lemma outerHTML_refines_spec:
  assumes "attributesValid (h ! e)"
  shows "outerHTML (Suc n) h e = outerHTML_spec n h e"
proof -
  have v: "\<forall>a \<in> set (attributes (h ! e)). validateToken (fst a)"
      "\<forall>a \<in> set (sort_key fst (attributes (h ! e))). validateText (snd a)"
    using assms by (auto simp: attributesValid_def)
  show ?thesis
    by (simp add: outerHTML_spec_def innerHTML_def sort_by_code_points [OF v(1)]
        attributesLoop_valid [OF v(2)] Let_def)
qed

text \<open>
  C6. In every store a program can build, \<open>outerHTML\<close> is what the specification
  describes (\<open>outerHTML_spec\<close>): attributes in ascending code-point order of their
  names, each as tab, name, \<^verbatim>\<open>='\<close>, escaped value, \<^verbatim>\<open>'\<close>; \<^verbatim>\<open>/>\<close> for a void
  element, the \<open>innerHTML\<close> and the closing tag otherwise. For a new \<^verbatim>\<open>div\<close> with
  the attribute \<^verbatim>\<open>data-x\<close> set to \<^verbatim>\<open>a'b"c<d>e&f\<close> it is the string of the
  specification.
\<close>

theorem C6_outerHTML_format:
  "(reachable h \<and> e < length h \<longrightarrow> outerHTML (Suc n) h e = outerHTML_spec n h e)
   \<and> Element_setAttribute 0 (js ''data-x'') value_data_x heap_div = (Inr (), heap_div_data_x)
   \<and> outerHTML (Suc n) heap_div_data_x 0 =
       Some (Inr (js ''<div'' @ [0x09] @ js ''data-x='' @ [0x27]
                  @ js ''a&apos;b&quot;c&lt;d&gt;e&amp;f'' @ [0x27] @ js ''></div>''))"
proof -
  have "outerHTML (Suc n) h e = outerHTML_spec n h e" if "reachable h" "e < length h"
    using that reachable_inv [of h]
    by (intro outerHTML_refines_spec) (simp add: list_all_length elementInv_def)
  moreover have "Element_setAttribute 0 (js ''data-x'') value_data_x heap_div = (Inr (), heap_div_data_x)"
    by (simp add: heap_div_data_x_def heap_div_def value_data_x_def eval_defs)
  moreover have "outerHTML (Suc n) heap_div_data_x 0 =
       Some (Inr (js ''<div'' @ [0x09] @ js ''data-x='' @ [0x27]
                  @ js ''a&apos;b&quot;c&lt;d&gt;e&amp;f'' @ [0x27] @ js ''></div>''))"
    by (simp add: heap_div_data_x_def heap_div_def value_data_x_def eval_defs)
  ultimately show ?thesis by blast
qed

theorem C6_outerHTML_format_witness:
  "reachable heap_div_data_x \<and> 0 < length heap_div_data_x
   \<and> outerHTML_spec 0 heap_div_data_x 0 =
       Some (Inr (js ''<div'' @ [0x09] @ js ''data-x='' @ [0x27]
                  @ js ''a&apos;b&quot;c&lt;d&gt;e&amp;f'' @ [0x27] @ js ''></div>''))"
proof -
  have r0: "reachable heap_div"
    unfolding heap_div_def by (rule reachable.new [OF reachable.start])
  have l0: "0 < length heap_div" by (simp add: heap_div_def eval_defs)
  have r: "reachable heap_div_data_x"
    unfolding heap_div_data_x_def by (rule reachable.setAttribute [OF r0 l0])
  have l: "0 < length heap_div_data_x"
    by (simp add: heap_div_data_x_def heap_div_def value_data_x_def eval_defs)
  from C6_outerHTML_format [of heap_div_data_x 0 0] r l show ?thesis
    by (auto simp del: outerHTML.simps)
qed

section \<open>clear and the innerText setter\<close>

lemma remove_flags:
  "void (Element_remove c h ! x) = void (h ! x)
   \<and> escapable (Element_remove c h ! x) = escapable (h ! x)"
  by (simp add: Element_remove_def Let_def nth_update_cases split: option.splits)

lemma clearStep_frame:
  "length (clearStep this h i) = length h
   \<and> void (clearStep this h i ! x) = void (h ! x)
   \<and> escapable (clearStep this h i ! x) = escapable (h ! x)"
  by (simp add: clearStep_def remove_flags split: node.splits)

lemma clear_loop_frame:
  "length (foldl (clearStep this) h is) = length h
   \<and> void (foldl (clearStep this) h is ! x) = void (h ! x)
   \<and> escapable (foldl (clearStep this) h is ! x) = escapable (h ! x)"
  by (induction "is" arbitrary: h) (simp_all add: clearStep_frame)

lemma clear_frame:
  "length (Element_clear this h) = length h
   \<and> void (Element_clear this h ! x) = void (h ! x)
   \<and> escapable (Element_clear this h ! x) = escapable (h ! x)"
  by (simp add: Element_clear_def Let_def clear_loop_frame nth_update_cases)

lemma clear_children: "this < length h \<Longrightarrow> children (Element_clear this h ! this) = []"
  by (simp add: Element_clear_def Let_def clear_loop_frame)

lemma set_innerText_unfold:
  "Element_set_innerText this text h = Element_append this [TextArg text] (Element_clear this h)"
  by (simp add: Element_set_innerText_def bindJ_def liftH_def)

lemma reachable_set_innerText:
  assumes "reachable h" "this < length h" "Element_set_innerText this text h = Some (r, h')"
  shows "reachable h'"
proof -
  have "reachable (Element_clear this h)" using assms(1,2) by (rule reachable.clear)
  moreover have "this < length (Element_clear this h)" using assms(2) by (simp add: clear_frame)
  moreover have "\<forall>c. ElementArg c \<in> set [TextArg text] \<longrightarrow> c < length (Element_clear this h)"
    by simp
  moreover have "Element_append this [TextArg text] (Element_clear this h) = Some (r, h')"
    using assms(3) by (simp add: set_innerText_unfold)
  ultimately show ?thesis by (rule reachable.append)
qed

text \<open>
  The setter always returns or throws, and when it throws, the store is the cleared
  one: the children of the receiver are gone before the error is raised.
\<close>

lemma set_innerText_cases:
  "Element_set_innerText this text h =
     (if void (h ! this) then Some (Inl VoidElementError, Element_clear this h)
      else if \<not> escapable (h ! this) then Some (Inl NotEscapableError, Element_clear this h)
      else if \<not> validateText text then Some (Inl InvalidTextError, Element_clear this h)
      else Some (Inr (), (Element_clear this h)
                   [this := (Element_clear this h ! this)
                      \<lparr>children := children (Element_clear this h ! this) @ [TextNode text]\<rparr>]))"
  by (simp add: set_innerText_unfold Element_append_def clear_frame)

lemma set_innerText_not_atomic:
  assumes "Element_set_innerText this text h = Some (Inl err, h')" "this < length h"
  shows "h' = Element_clear this h \<and> children (h' ! this) = []"
  using assms by (auto simp: set_innerText_cases clear_children split: if_splits)

text \<open>
  C10. Writing \<open>innerText\<close> is not atomic: the setter clears first, so a failing
  \<open>append\<close> leaves the children emptied (\<open>set_innerText_not_atomic\<close>) and the former
  element children detached. The last part fails after
  \<^verbatim>\<open>p.append ('t', c); c.remove (); p.append (d, c)\<close>: the children of \<^verbatim>\<open>p\<close> are
  then a hole, \<^verbatim>\<open>c\<close>, \<^verbatim>\<open>d\<close>, \<^verbatim>\<open>c\<close>, with position 2 recorded for both \<^verbatim>\<open>d\<close>
  and \<^verbatim>\<open>c\<close>. In \<^verbatim>\<open>p.innerText = '\u0000'\<close> the loop of \<^verbatim>\<open>clear\<close> reaches \<^verbatim>\<open>c\<close>
  in slot 1, whose removal makes a hole of slot 2; the loop then skips that slot, and
  \<^verbatim>\<open>d\<close> is never removed. The error is raised with the children of \<^verbatim>\<open>p\<close> emptied
  and \<^verbatim>\<open>d\<close> still holding \<^verbatim>\<open>p\<close> as its parent.
\<close>

theorem C10_innerText_leaves_child_attached:
  "Element_append 0 [TextArg (js ''t''), ElementArg 1] heap_three = Some (Inr (), heap_text_c)
   \<and> heap_c_removed = Element_remove 1 heap_text_c
   \<and> Element_append 0 [ElementArg 2, ElementArg 1] heap_c_removed = Some (Inr (), heap_d_c)
   \<and> children (heap_d_c ! 0) = [Hole, ElementNode 1, ElementNode 2, ElementNode 1]
   \<and> parentElement heap_d_c 2 = Some 0
   \<and> Element_set_innerText 0 [0x0] heap_d_c = Some (Inl InvalidTextError, Element_clear 0 heap_d_c)
   \<and> children (Element_clear 0 heap_d_c ! 0) = []
   \<and> parentElement (Element_clear 0 heap_d_c) 1 = None
   \<and> parentElement (Element_clear 0 heap_d_c) 2 = Some 0"
  by (simp add: heap_d_c_def heap_c_removed_def heap_text_c_def heap_three_def eval_defs)

section \<open>The title of a document\<close>

lemma length_concat_escapeUnit: "length s \<le> length (concat (map escapeUnit s))"
  by (induction s) (auto simp: escapeUnit_def js_def)

lemma escapeReplace_fixed: "escapeReplace s = s \<longleftrightarrow> \<not> (\<exists>u \<in> set s. specialUnit u)"
proof (induction s)
  case Nil
  then show ?case by (simp add: escapeReplace_units)
next
  case (Cons u s)
  show ?case
  proof (cases "specialUnit u")
    case True
    have "length (u # s) < length (escapeUnit u @ concat (map escapeUnit s))"
      using True length_concat_escapeUnit [of s]
      by (auto simp: specialUnit_def escapeUnit_def js_def)
    then have "length (escapeReplace (u # s)) \<noteq> length (u # s)"
      by (simp add: escapeReplace_units)
    then have "escapeReplace (u # s) \<noteq> u # s"
      by metis
    with True show ?thesis by simp
  next
    case False
    then have "escapeUnit u = [u]" by (simp add: specialUnit_def escapeUnit_def)
    with False Cons show ?thesis by (simp add: escapeReplace_units)
  qed
qed

text \<open>
  C3, as the code has it. For a document whose title element is a \<^verbatim>\<open>title\<close> element
  of a reachable store, and every string \<open>s\<close> that \<open>validateText\<close> accepts, setting the
  title to \<open>s\<close> succeeds and reading it back gives the escaped text \<open>escapeReplace s\<close>:
  the \<open>innerText\<close> getter passes each string child through \<open>escapeText\<close>. That is \<open>s\<close>
  itself exactly when \<open>s\<close> has none of the five special characters.
\<close>

theorem C3_title_reads_escaped:
  assumes "reachable h" "title doc < length h" "name (h ! title doc) = js ''title''"
    "validateText s"
  shows "\<exists>h'. Document_set_title doc s h = Some (Inr (), h')
           \<and> Document_get_title (Suc n) doc h' = Some (Inr (escapeReplace s))
           \<and> (escapeReplace s = s \<longleftrightarrow> \<not> (\<exists>u \<in> set s. specialUnit u))"
proof -
  have "elementInv (h ! title doc)"
    using assms(1,2) by (simp add: reachable_inv list_all_nth)
  with assms(3) have f: "\<not> void (h ! title doc)" "escapable (h ! title doc)"
    by (simp_all add: elementInv_def flagsOf_def VOID_ELEMENTS_def RAW_TEXT_ELEMENTS_def js_def)
  show ?thesis
    using f assms(2,4)
    by (simp add: Document_set_title_def Document_get_title_def set_innerText_cases
        clear_frame clear_children escapeText_valid escapeReplace_fixed)
qed

text \<open>
  C3 as stated fails: after \<^verbatim>\<open>document.title = "Hello & <you>"\<close> on a new document,
  reading the title gives \<^verbatim>\<open>Hello &amp; &lt;you&gt;\<close>.
\<close>

theorem C3_title_not_unescaped_counterexample:
  "Document_new 0 [] = Some (Inr (skeletonDocument 0), skeleton 0 0)
   \<and> validateText (js ''Hello & <you>'')
   \<and> Document_set_title (skeletonDocument 0) (js ''Hello & <you>'') (skeleton 0 0)
       = Some (Inr (), heap_titled)
   \<and> Document_get_title 1 (skeletonDocument 0) heap_titled
       = Some (Inr (js ''Hello &amp; &lt;you&gt;''))
   \<and> Document_get_title 1 (skeletonDocument 0) heap_titled
       \<noteq> Some (Inr (js ''Hello & <you>''))"
  using Document_new_skeleton [of 0 "[]"]
  by (simp add: heap_titled_def, simp add: skeleton_def skeletonDocument_def eval_defs)


text \<open>
  The constructor of \<open>Document\<close> keeps a store reachable: it is a sequence of the
  steps of \<open>reachable\<close>.
\<close>

lemma reachable_Document_new:
  assumes "reachable h"
  shows "reachable (h @ skeleton d (length h))"
proof -
  let ?n = "length h"
  define h1 where "h1 = snd (Element_new (js ''html'') h)"
  define h2 where "h2 = setDocument ?n d h1"
  define h3 where
    "h3 = snd (Element_setAttribute ?n (js ''xmlns'') (js ''http://www.w3.org/1999/xhtml'') h2)"
  define h4 where
    "h4 = snd (Element_setAttribute ?n (js ''xmlns:xlink'') (js ''http://www.w3.org/1999/xlink'') h3)"
  define h5 where "h5 = snd (Element_new (js ''head'') h4)"
  define h6 where "h6 = snd (the (Element_append ?n [ElementArg (Suc ?n)] h5))"
  define h7 where "h7 = snd (Element_new (js ''body'') h6)"
  define h8 where "h8 = snd (the (Element_append ?n [ElementArg (Suc (Suc ?n))] h7))"
  define h9 where "h9 = snd (Element_new (js ''meta'') h8)"
  define h10 where
    "h10 = snd (Element_setAttribute (Suc (Suc (Suc ?n))) (js ''charset'') (js ''UTF-8'') h9)"
  define h11 where "h11 = snd (the (Element_append (Suc ?n) [ElementArg (Suc (Suc (Suc ?n)))] h10))"
  define h12 where "h12 = snd (Element_new (js ''title'') h11)"
  define h13 where
    "h13 = snd (the (Element_append (Suc ?n) [ElementArg (Suc (Suc (Suc (Suc ?n))))] h12))"
  note defs = h13_def h12_def h11_def h10_def h9_def h8_def h7_def h6_def h5_def h4_def
    h3_def h2_def h1_def
  note ev = defs eval_defs nth_append list_update_append
  have r1: "reachable h1"
    unfolding h1_def by (rule reachable.new [OF assms])
  have r2: "reachable h2"
    unfolding h2_def by (rule reachable.setDocument [OF r1]) (simp add: ev)
  have r3: "reachable h3"
    unfolding h3_def by (rule reachable.setAttribute [OF r2]) (simp add: ev)
  have r4: "reachable h4"
    unfolding h4_def by (rule reachable.setAttribute [OF r3]) (simp add: ev)
  have r5: "reachable h5"
    unfolding h5_def by (rule reachable.new [OF r4])
  have r6: "reachable h6"
    by (rule reachable.append [OF r5, of ?n "[ElementArg (Suc ?n)]" "Inr ()"])
       (simp_all add: ev)
  have r7: "reachable h7"
    unfolding h7_def by (rule reachable.new [OF r6])
  have r8: "reachable h8"
    by (rule reachable.append [OF r7, of ?n "[ElementArg (Suc (Suc ?n))]" "Inr ()"])
       (simp_all add: ev)
  have r9: "reachable h9"
    unfolding h9_def by (rule reachable.new [OF r8])
  have r10: "reachable h10"
    unfolding h10_def by (rule reachable.setAttribute [OF r9]) (simp add: ev)
  have r11: "reachable h11"
    by (rule reachable.append [OF r10, of "Suc ?n" "[ElementArg (Suc (Suc (Suc ?n)))]" "Inr ()"])
       (simp_all add: ev)
  have r12: "reachable h12"
    unfolding h12_def by (rule reachable.new [OF r11])
  have r13: "reachable h13"
    by (rule reachable.append [OF r12, of "Suc ?n" "[ElementArg (Suc (Suc (Suc (Suc ?n))))]" "Inr ()"])
       (simp_all add: ev)
  have "h13 = h @ skeleton d ?n"
    by (simp add: ev skeleton_def small_sucs)
  with r13 show ?thesis by simp
qed

lemma reachable_skeleton: "reachable (skeleton 0 0)"
  using reachable_Document_new [OF reachable.start, of 0] by simp

theorem C3_title_reads_escaped_witness:
  "reachable (skeleton 0 0) \<and> name (skeleton 0 0 ! title (skeletonDocument 0)) = js ''title''
   \<and> validateText (js ''Hello & <you>'')
   \<and> (\<exists>h'. Document_set_title (skeletonDocument 0) (js ''Hello & <you>'') (skeleton 0 0)
              = Some (Inr (), h')
         \<and> Document_get_title 1 (skeletonDocument 0) h'
              = Some (Inr (escapeReplace (js ''Hello & <you>''))))"
proof -
  have a: "title (skeletonDocument 0) < length (skeleton 0 0)"
    "name (skeleton 0 0 ! title (skeletonDocument 0)) = js ''title''"
    by (simp_all add: skeleton_def skeletonDocument_def)
  have v: "validateText (js ''Hello & <you>'')"
    by (simp add: eval_defs)
  from C3_title_reads_escaped [OF reachable_skeleton a v, of 0] reachable_skeleton a(2) v
  show ?thesis by auto
qed

end
